theory Spec2Isabelle
  imports Main "HOL-Library.Sublist"
begin

section \<open>JSON documents and their serialisation\<close>

text \<open>
  The integrator builds Python dictionaries and lists and hands them to \<^verbatim>\<open>json.dump\<close>
  (with \<^verbatim>\<open>indent=2\<close>); the liveness probe calls \<^verbatim>\<open>json.dumps\<close> with the default
  layout. A dictionary keeps its insertion order, which decides the order of the keys in
  the rendered text, so an object is an association list.
\<close>

datatype json = JNull | JBool bool | JInt int | JStr string | JArr "json list"
  | JObj "(string \<times> json) list"

definition hex_digit :: "nat \<Rightarrow> char" where
  \<open>hex_digit n = ''0123456789abcdef'' ! (n mod 16)\<close>

text \<open>
  The escape table of the standard encoder (\<^verbatim>\<open>ensure_ascii\<close> is left at its default):
  backslash, double quote and the five named control characters have two-character
  escapes, every other character outside the range from space to tilde becomes
  \<^verbatim>\<open>\u00XX\<close>. A \<^typ>\<open>char\<close> is one byte, so code points from 256 on cannot occur.
\<close>

definition escape_char :: "char \<Rightarrow> string" where
  \<open>escape_char c =
     (if c = CHR 0x5C then [CHR 0x5C, CHR 0x5C]
      else if c = CHR 0x22 then [CHR 0x5C, CHR 0x22]
      else if c = CHR 0x08 then [CHR 0x5C, CHR ''b'']
      else if c = CHR 0x0C then [CHR 0x5C, CHR ''f'']
      else if c = CHR 0x0A then [CHR 0x5C, CHR ''n'']
      else if c = CHR 0x0D then [CHR 0x5C, CHR ''r'']
      else if c = CHR 0x09 then [CHR 0x5C, CHR ''t'']
      else if of_char c < (32::nat) \<or> (126::nat) < of_char c
        then [CHR 0x5C, CHR ''u'', CHR ''0'', CHR ''0'',
              hex_digit (of_char c div 16), hex_digit (of_char c)]
      else [c])\<close>

definition encode_basestring_ascii :: "string \<Rightarrow> string" where
  \<open>encode_basestring_ascii s = [CHR 0x22] @ concat (map escape_char s) @ [CHR 0x22]\<close>

fun digits :: "nat \<Rightarrow> string" where
  \<open>digits n = (if n < 10 then [''0123456789'' ! n]
               else digits (n div 10) @ [''0123456789'' ! (n mod 10)])\<close>

definition int_repr :: "int \<Rightarrow> string" where
  \<open>int_repr i = (if i < 0 then CHR ''-'' # digits (nat (- i)) else digits (nat i))\<close>

fun join :: "string \<Rightarrow> string list \<Rightarrow> string" where
  \<open>join sep [] = []\<close>
| \<open>join sep [x] = x\<close>
| \<open>join sep (x # y # ys) = x @ sep @ join sep (y # ys)\<close>

text \<open>
  With an indent the encoder starts every item on a line of its own and separates items
  by a bare comma; without one it separates them by comma and space. The key separator
  is colon and space in both layouts.
\<close>

definition newline_indent :: "nat option \<Rightarrow> nat \<Rightarrow> string" where
  \<open>newline_indent indent level =
     (case indent of None \<Rightarrow> [] | Some n \<Rightarrow> CHR 0x0A # replicate (n * level) CHR '' '')\<close>

definition item_separator :: "nat option \<Rightarrow> string" where
  \<open>item_separator indent = (case indent of None \<Rightarrow> '', '' | Some n \<Rightarrow> '','')\<close>

fun iterencode :: "nat option \<Rightarrow> nat \<Rightarrow> json \<Rightarrow> string" where
  \<open>iterencode indent level JNull = ''null''\<close>
| \<open>iterencode indent level (JBool b) = (if b then ''true'' else ''false'')\<close>
| \<open>iterencode indent level (JInt i) = int_repr i\<close>
| \<open>iterencode indent level (JStr s) = encode_basestring_ascii s\<close>
| \<open>iterencode indent level (JArr xs) =
     (if xs = [] then ''[]''
      else ''['' @ newline_indent indent (level + 1)
        @ join (item_separator indent @ newline_indent indent (level + 1))
               (map (iterencode indent (level + 1)) xs)
        @ newline_indent indent level @ '']'')\<close>
| \<open>iterencode indent level (JObj kvs) =
     (if kvs = [] then ''{}''
      else ''{'' @ newline_indent indent (level + 1)
        @ join (item_separator indent @ newline_indent indent (level + 1))
               (map (\<lambda>(k, v). encode_basestring_ascii k @ '': ''
                        @ iterencode indent (level + 1) v) kvs)
        @ newline_indent indent level @ ''}'')\<close>

definition json_dumps :: "nat option \<Rightarrow> json \<Rightarrow> string" where
  \<open>json_dumps indent obj = iterencode indent 0 obj\<close>

text \<open>Reading a document back: the keys of an object and the value under a key.\<close>

fun keys :: "json \<Rightarrow> string list" where
  \<open>keys (JObj kvs) = map fst kvs\<close>
| \<open>keys _ = []\<close>

fun field :: "string \<Rightarrow> json \<Rightarrow> json option" where
  \<open>field k (JObj kvs) = map_of kvs k\<close>
| \<open>field k _ = None\<close>

fun is_array :: "json \<Rightarrow> bool" where
  \<open>is_array (JArr xs) = True\<close>
| \<open>is_array _ = False\<close>


section \<open>The liveness probe (apple\_notes\_mcp\_server.py)\<close>

text \<open>
  \<^verbatim>\<open>GenericMCPHandler.do_GET\<close> reads \<^verbatim>\<open>self.path\<close> and drives the response through
  the handler's methods. The response under construction is a record; the headers the
  library adds by itself (\<^verbatim>\<open>Server\<close>, \<^verbatim>\<open>Date\<close>) are not part of it.
\<close>

record response =
  code :: "nat option"
  headers :: "(string \<times> string) list"
  headers_ended :: bool
  wfile :: string











section \<open>The ecosystem integrator (MCP\_ECOSYSTEM\_INTEGRATOR.py)\<close>

subsection \<open>Data classes and the integrator object\<close>

text \<open>
  The two data classes are records. \<^verbatim>\<open>MCPConnection\<close> has one field with a default,
  \<^verbatim>\<open>status = "pending"\<close>, which no call of the program overrides; its generated
  constructor is \<open>new_MCPConnection\<close>. Neither class has a \<^verbatim>\<open>__post_init__\<close>: the
  constructors accept any strings.
\<close>

record MCPConnection =
  conn_name :: string
  source :: string
  target :: string
  protocol :: string
  conn_endpoints :: "string list"
  authentication :: string
  conn_capabilities :: "string list"
  status :: string

definition new_MCPConnection ::
  "string \<Rightarrow> string \<Rightarrow> string \<Rightarrow> string \<Rightarrow> string list \<Rightarrow> string \<Rightarrow> string list \<Rightarrow> MCPConnection"
where
  \<open>new_MCPConnection n s t p es a cs =
     \<lparr>conn_name = n, source = s, target = t, protocol = p, conn_endpoints = es,
      authentication = a, conn_capabilities = cs, status = ''pending''\<rparr>\<close>

record MCPPattern =
  pat_name :: string
  description :: string
  source_components :: "string list"
  target_components :: "string list"
  data_flow :: string
  trigger_events :: "string list"
  response_handling :: string

text \<open>
  A \<^verbatim>\<open>pathlib.Path\<close> is the list of its parts. The right operand of every \<^verbatim>\<open>/\<close> in
  the program is a single part.
\<close>

type_synonym path = "string list"

definition joinpath :: "path \<Rightarrow> string \<Rightarrow> path" where
  \<open>joinpath p q = p @ [q]\<close>

definition parent :: "path \<Rightarrow> path" where
  \<open>parent p = (if length p \<le> 1 then p else butlast p)\<close>

text \<open>
  An entry of the \<^verbatim>\<open>mcp_servers\<close> dictionary: a dictionary with the four keys
  \<^verbatim>\<open>name\<close>, \<^verbatim>\<open>path\<close>, \<^verbatim>\<open>capabilities\<close> and \<^verbatim>\<open>endpoints\<close>.
\<close>

record server_entry =
  srv_name :: string
  srv_path :: path
  srv_capabilities :: "string list"
  srv_endpoints :: "string list"

record integrator =
  base_path :: path
  mcp_connections :: "MCPConnection list"
  mcp_patterns :: "MCPPattern list"
  activepieces_path :: path
  iza_os_path :: path
  mcp_servers :: "(string \<times> server_entry) list"

definition default_base_path :: path where
  \<open>default_base_path = [''/'', ''Users'', ''divinejohns'', ''memU'', ''memu'']\<close>

definition init :: "path \<Rightarrow> integrator" where
  \<open>init bp =
     (let ap = joinpath (joinpath bp ''worldwidebro-repositories'') ''activepieces'';
          ip = joinpath bp ''iza-os-integrated''
      in \<lparr>base_path = bp,
          mcp_connections = [],
          mcp_patterns = [],
          activepieces_path = ap,
          iza_os_path = ip,
          mcp_servers =
            [(''activepieces'',
              \<lparr>srv_name = ''Activepieces MCP Server'',
               srv_path = ap,
               srv_capabilities = [''workflow_orchestration'', ''automation'', ''api_integration''],
               srv_endpoints = [''/api/v1/flows'', ''/api/v1/triggers'', ''/api/v1/actions'']\<rparr>),
             (''claude_flow'',
              \<lparr>srv_name = ''Claude Flow MCP Server'',
               srv_path = joinpath (joinpath ip ''30-models'') ''claude-flow'',
               srv_capabilities =
                 [''ai_orchestration'', ''conversation_management'', ''agent_coordination''],
               srv_endpoints =
                 [''/api/v1/agents'', ''/api/v1/conversations'', ''/api/v1/workflows'']\<rparr>),
             (''iza_os_core'',
              \<lparr>srv_name = ''IZA OS Core MCP Server'',
               srv_path = joinpath ip ''00-meta'',
               srv_capabilities =
                 [''system_orchestration'', ''configuration_management'', ''registry_operations''],
               srv_endpoints = [''/api/v1/config'', ''/api/v1/registry'', ''/api/v1/status'']\<rparr>),
             (''github_integration'',
              \<lparr>srv_name = ''GitHub Integration MCP Server'',
               srv_path = joinpath bp ''worldwidebro-integration'',
               srv_capabilities = [''repository_management'', ''code_analysis'', ''collaboration''],
               srv_endpoints =
                 [''/api/v1/repos'', ''/api/v1/analysis'', ''/api/v1/collaboration'']\<rparr>)]\<rparr>)\<close>

subsection \<open>Connections and patterns\<close>

text \<open>
  Both methods assign a list literal to the attribute of the integrator. Neither reads
  \<^verbatim>\<open>self.mcp_servers\<close>, and neither can raise.
\<close>

definition create_mcp_connections :: "integrator \<Rightarrow> integrator" where
  \<open>create_mcp_connections self = self\<lparr>mcp_connections :=
    [new_MCPConnection
        ''Activepieces to IZA OS''
        ''activepieces''
        ''iza_os_core''
        ''mcp''
        [''/api/v1/flows'', ''/api/v1/config'']
        ''api_key''
        [''workflow_orchestration'', ''system_configuration''],
     new_MCPConnection
        ''Claude Flow to Activepieces''
        ''claude_flow''
        ''activepieces''
        ''mcp''
        [''/api/v1/agents'', ''/api/v1/flows'']
        ''oauth2''
        [''ai_workflow_integration'', ''conversation_automation''],
     new_MCPConnection
        ''GitHub to IZA OS''
        ''github_integration''
        ''iza_os_core''
        ''mcp''
        [''/api/v1/repos'', ''/api/v1/registry'']
        ''github_token''
        [''repository_sync'', ''code_analysis''],
     new_MCPConnection
        ''IZA OS to Claude Flow''
        ''iza_os_core''
        ''claude_flow''
        ''mcp''
        [''/api/v1/config'', ''/api/v1/agents'']
        ''internal''
        [''system_orchestration'', ''agent_management''],
     new_MCPConnection
        ''Activepieces to GitHub''
        ''activepieces''
        ''github_integration''
        ''mcp''
        [''/api/v1/flows'', ''/api/v1/repos'']
        ''api_key''
        [''workflow_automation'', ''repository_operations'']]\<rparr>\<close>

definition create_mcp_patterns :: "integrator \<Rightarrow> integrator" where
  \<open>create_mcp_patterns self = self\<lparr>mcp_patterns :=
    [\<lparr>pat_name = ''Repository Analysis Workflow'',
       description = ''Automated analysis of new repositories using AI agents'',
       source_components = [''github_integration'', ''claude_flow''],
       target_components = [''iza_os_core'', ''activepieces''],
       data_flow = ''github -> claude_flow -> iza_os_core -> activepieces'',
       trigger_events = [''new_repository'', ''code_push'', ''pull_request''],
       response_handling = ''async_with_webhook''\<rparr>,
      \<lparr>pat_name = ''AI Agent Orchestration'',
       description = ''Coordinate AI agents across different systems'',
       source_components = [''claude_flow'', ''iza_os_core''],
       target_components = [''activepieces'', ''github_integration''],
       data_flow = ''claude_flow -> iza_os_core -> activepieces -> github_integration'',
       trigger_events = [''agent_request'', ''workflow_trigger'', ''system_event''],
       response_handling = ''real_time_streaming''\<rparr>,
      \<lparr>pat_name = ''System Health Monitoring'',
       description = ''Monitor and maintain system health across all components'',
       source_components = [''iza_os_core'', ''activepieces''],
       target_components = [''claude_flow'', ''github_integration''],
       data_flow = ''iza_os_core -> activepieces -> claude_flow -> github_integration'',
       trigger_events = [''health_check'', ''performance_alert'', ''error_detection''],
       response_handling = ''immediate_response''\<rparr>,
      \<lparr>pat_name = ''Workflow Automation Chain'',
       description = ''Chain multiple workflows across different systems'',
       source_components = [''activepieces'', ''claude_flow''],
       target_components = [''github_integration'', ''iza_os_core''],
       data_flow = ''activepieces -> claude_flow -> github_integration -> iza_os_core'',
       trigger_events = [''workflow_start'', ''task_completion'', ''user_action''],
       response_handling = ''sequential_processing''\<rparr>]\<rparr>\<close>

subsection \<open>The lookup tables of the per-server documents\<close>

definition tools_map :: "(string \<times> json list) list" where
  \<open>tools_map =
    [(''activepieces'',
      [JObj
         [(''name'', JStr ''create_workflow''),
          (''description'', JStr ''Create a new workflow in Activepieces''),
          (''inputSchema'', JObj
             [(''type'', JStr ''object''),
              (''properties'', JObj
                 [(''name'', JObj [(''type'', JStr ''string'')]),
                  (''trigger'', JObj [(''type'', JStr ''string'')]),
                  (''actions'', JObj [(''type'', JStr ''array'')])])])],
       JObj
         [(''name'', JStr ''execute_workflow''),
          (''description'', JStr ''Execute a workflow''),
          (''inputSchema'', JObj
             [(''type'', JStr ''object''),
              (''properties'', JObj
                 [(''workflow_id'', JObj [(''type'', JStr ''string'')]),
                  (''input_data'', JObj [(''type'', JStr ''object'')])])])]]),
     (''claude_flow'',
      [JObj
         [(''name'', JStr ''create_agent''),
          (''description'', JStr ''Create a new AI agent''),
          (''inputSchema'', JObj
             [(''type'', JStr ''object''),
              (''properties'', JObj
                 [(''name'', JObj [(''type'', JStr ''string'')]),
                  (''capabilities'', JObj [(''type'', JStr ''array'')]),
                  (''prompt'', JObj [(''type'', JStr ''string'')])])])],
       JObj
         [(''name'', JStr ''orchestrate_agents''),
          (''description'', JStr ''Orchestrate multiple agents''),
          (''inputSchema'', JObj
             [(''type'', JStr ''object''),
              (''properties'', JObj
                 [(''agents'', JObj [(''type'', JStr ''array'')]),
                  (''task'', JObj [(''type'', JStr ''string'')])])])]]),
     (''iza_os_core'',
      [JObj
         [(''name'', JStr ''update_config''),
          (''description'', JStr ''Update system configuration''),
          (''inputSchema'', JObj
             [(''type'', JStr ''object''),
              (''properties'', JObj
                 [(''config_path'', JObj [(''type'', JStr ''string'')]),
                  (''config_data'', JObj [(''type'', JStr ''object'')])])])],
       JObj
         [(''name'', JStr ''register_component''),
          (''description'', JStr ''Register a new component''),
          (''inputSchema'', JObj
             [(''type'', JStr ''object''),
              (''properties'', JObj
                 [(''component_name'', JObj [(''type'', JStr ''string'')]),
                  (''component_type'', JObj [(''type'', JStr ''string'')]),
                  (''endpoints'', JObj [(''type'', JStr ''array'')])])])]]),
     (''github_integration'',
      [JObj
         [(''name'', JStr ''analyze_repository''),
          (''description'', JStr ''Analyze a GitHub repository''),
          (''inputSchema'', JObj
             [(''type'', JStr ''object''),
              (''properties'', JObj
                 [(''repo_url'', JObj [(''type'', JStr ''string'')]),
                  (''analysis_type'', JObj [(''type'', JStr ''string'')])])])],
       JObj
         [(''name'', JStr ''sync_repositories''),
          (''description'', JStr ''Sync repositories with IZA OS''),
          (''inputSchema'', JObj
             [(''type'', JStr ''object''),
              (''properties'', JObj
                 [(''repo_list'', JObj [(''type'', JStr ''array'')]),
                  (''sync_options'', JObj [(''type'', JStr ''object'')])])])]])]\<close>

definition get_server_tools :: "string \<Rightarrow> json list" where
  \<open>get_server_tools server_name =
     (case map_of tools_map server_name of Some ts \<Rightarrow> ts | None \<Rightarrow> [])\<close>

definition resources_map :: "(string \<times> json list) list" where
  \<open>resources_map =
    [(''activepieces'',
      [JObj
         [(''uri'', JStr ''activepieces://workflows''),
          (''name'', JStr ''Activepieces Workflows''),
          (''description'', JStr ''Access to all workflows in Activepieces'')],
       JObj
         [(''uri'', JStr ''activepieces://triggers''),
          (''name'', JStr ''Activepieces Triggers''),
          (''description'', JStr ''Access to all triggers in Activepieces'')]]),
     (''claude_flow'',
      [JObj
         [(''uri'', JStr ''claude-flow://agents''),
          (''name'', JStr ''Claude Flow Agents''),
          (''description'', JStr ''Access to all AI agents in Claude Flow'')],
       JObj
         [(''uri'', JStr ''claude-flow://conversations''),
          (''name'', JStr ''Claude Flow Conversations''),
          (''description'', JStr ''Access to conversation history'')]]),
     (''iza_os_core'',
      [JObj
         [(''uri'', JStr ''iza-os://config''),
          (''name'', JStr ''IZA OS Configuration''),
          (''description'', JStr ''Access to system configuration'')],
       JObj
         [(''uri'', JStr ''iza-os://registry''),
          (''name'', JStr ''IZA OS Registry''),
          (''description'', JStr ''Access to component registry'')]]),
     (''github_integration'',
      [JObj
         [(''uri'', JStr ''github://repositories''),
          (''name'', JStr ''GitHub Repositories''),
          (''description'', JStr ''Access to repository data'')],
       JObj
         [(''uri'', JStr ''github://analysis''),
          (''name'', JStr ''Repository Analysis''),
          (''description'', JStr ''Access to analysis results'')]])]\<close>

definition get_server_resources :: "string \<Rightarrow> json list" where
  \<open>get_server_resources server_name =
     (case map_of resources_map server_name of Some rs \<Rightarrow> rs | None \<Rightarrow> [])\<close>

definition prompts_map :: "(string \<times> json list) list" where
  \<open>prompts_map =
    [(''activepieces'',
      [JObj
         [(''name'', JStr ''workflow_optimizer''),
          (''description'', JStr ''Optimize workflow performance''),
          (''arguments'', JArr
             [JObj
               [(''name'', JStr ''workflow_id''),
                (''description'', JStr ''ID of the workflow to optimize'')]])]]),
     (''claude_flow'',
      [JObj
         [(''name'', JStr ''agent_coordinator''),
          (''description'', JStr ''Coordinate multiple agents for a task''),
          (''arguments'', JArr
             [JObj
               [(''name'', JStr ''task_description''),
                (''description'', JStr ''Description of the task'')],
              JObj
               [(''name'', JStr ''available_agents''),
                (''description'', JStr ''List of available agents'')]])]]),
     (''iza_os_core'',
      [JObj
         [(''name'', JStr ''system_analyzer''),
          (''description'', JStr ''Analyze system performance and health''),
          (''arguments'', JArr
             [JObj
               [(''name'', JStr ''analysis_scope''),
                (''description'', JStr ''Scope of analysis'')]])]]),
     (''github_integration'',
      [JObj
         [(''name'', JStr ''repository_insights''),
          (''description'', JStr ''Generate insights about repositories''),
          (''arguments'', JArr
             [JObj [(''name'', JStr ''repo_url''), (''description'', JStr ''Repository URL'')],
              JObj
               [(''name'', JStr ''insight_type''),
                (''description'', JStr ''Type of insights to generate'')]])]])]\<close>

definition get_server_prompts :: "string \<Rightarrow> json list" where
  \<open>get_server_prompts server_name =
     (case map_of prompts_map server_name of Some ps \<Rightarrow> ps | None \<Rightarrow> [])\<close>

text \<open>The dictionary \<^verbatim>\<open>config\<close> that the loop of \<^verbatim>\<open>create_mcp_server_configs\<close> builds.\<close>

definition server_config_document :: "string \<Rightarrow> server_entry \<Rightarrow> json" where
  \<open>server_config_document server_name server_config =
     JObj
      [(''name'', JStr (srv_name server_config)),
       (''version'', JStr ''1.0.0''),
       (''capabilities'', JArr (map JStr (srv_capabilities server_config))),
       (''endpoints'', JArr (map JStr (srv_endpoints server_config))),
       (''authentication'', JObj [(''type'', JStr ''api_key''), (''required'', JBool True)]),
       (''mcp_protocol'', JObj
          [(''version'', JStr ''2024-11-05''),
           (''transport'', JStr ''stdio''),
           (''capabilities'', JObj
              [(''tools'', JBool True),
               (''resources'', JBool True),
               (''prompts'', JBool True),
               (''logging'', JBool True)])]),
       (''tools'', JArr (get_server_tools server_name)),
       (''resources'', JArr (get_server_resources server_name)),
       (''prompts'', JArr (get_server_prompts server_name))]\<close>

subsection \<open>The file system and the clock\<close>

text \<open>
  The program touches the outside world in three ways: it creates a directory
  (\<^verbatim>\<open>mkdir(exist_ok=True)\<close>), it opens a file for writing and writes one text into it,
  and it reads the clock once (\<^verbatim>\<open>datetime.now().isoformat()\<close>). The world holds the
  reading of the clock, the paths on which the operating system refuses a call, and the
  calls that went through, in the order they were made. A refused call raises
  \<^verbatim>\<open>OSError\<close>; no method of the integrator catches an exception, so the exception ends
  every method on the call stack, and what was done before stays done.
  The lines printed to the console are not part of the model.
\<close>

datatype fs_op = Mkdir path | WriteText path string

fun op_path :: "fs_op \<Rightarrow> path" where
  \<open>op_path (Mkdir p) = p\<close>
| \<open>op_path (WriteText p content) = p\<close>

datatype os_error = OSError path

record world =
  clock :: string
  refused :: "path list"
  performed :: "fs_op list"

type_synonym 'a io = "world \<Rightarrow> (os_error + 'a) \<times> world"

definition io_return :: "'a \<Rightarrow> 'a io" where
  \<open>io_return x w = (Inr x, w)\<close>

definition io_bind :: "'a io \<Rightarrow> ('a \<Rightarrow> 'b io) \<Rightarrow> 'b io" where
  \<open>io_bind m f w = (case m w of (Inl e, w') \<Rightarrow> (Inl e, w') | (Inr x, w') \<Rightarrow> f x w')\<close>

definition attempt :: "fs_op \<Rightarrow> unit io" where
  \<open>attempt c w =
     (if op_path c \<in> set (refused w) then (Inl (OSError (op_path c)), w)
      else (Inr (), w\<lparr>performed := performed w @ [c]\<rparr>))\<close>

definition mkdir_exist_ok :: "path \<Rightarrow> unit io" where
  \<open>mkdir_exist_ok p = attempt (Mkdir p)\<close>

definition write_text :: "path \<Rightarrow> string \<Rightarrow> unit io" where
  \<open>write_text p content = attempt (WriteText p content)\<close>

definition datetime_now_isoformat :: "string io" where
  \<open>datetime_now_isoformat w = (Inr (clock w), w)\<close>

subsection \<open>The generators\<close>

fun server_configs_loop :: "path \<Rightarrow> (string \<times> server_entry) list \<Rightarrow> unit io" where
  \<open>server_configs_loop base [] = io_return ()\<close>
| \<open>server_configs_loop base ((server_name, server_config) # rest) =
     (let config = server_config_document server_name server_config;
          config_path = joinpath (joinpath base ''mcp-configs'') (server_name @ ''_mcp_config.json'')
      in io_bind (mkdir_exist_ok (parent config_path)) (\<lambda>_.
         io_bind (write_text config_path (json_dumps (Some 2) config)) (\<lambda>_.
         server_configs_loop base rest)))\<close>

definition create_mcp_server_configs :: "integrator \<Rightarrow> unit io" where
  \<open>create_mcp_server_configs self = server_configs_loop (base_path self) (mcp_servers self)\<close>

definition deployment_analysis :: json where
  \<open>deployment_analysis =
     JObj
      [(''vercel'', JObj
          [(''pros'', JArr
              [JStr ''Excellent Next.js support (perfect for React apps)'',
               JStr ''Serverless functions with zero config'',
               JStr ''Edge functions for global performance'',
               JStr ''Built-in analytics and monitoring'',
               JStr ''GitHub integration with automatic deployments'',
               JStr ''Preview deployments for every PR'',
               JStr ''Excellent developer experience'',
               JStr ''Support for monorepos'',
               JStr ''Built-in image optimization'',
               JStr ''Edge caching and CDN'']),
           (''cons'', JArr
              [JStr ''More expensive for high-traffic applications'',
               JStr ''Vendor lock-in to Vercel ecosystem'',
               JStr ''Limited database options'',
               JStr ''Cold starts for serverless functions'',
               JStr ''Less control over infrastructure'']),
           (''best_for'', JArr
              [JStr ''React/Next.js applications'',
               JStr ''JAMstack applications'',
               JStr ''Static sites with dynamic features'',
               JStr ''API routes and serverless functions'',
               JStr ''Developer-focused projects'']),
           (''pricing'', JObj
              [(''hobby'', JStr ''Free (with limits)''),
               (''pro'', JStr ''$20/month per team member''),
               (''enterprise'', JStr ''Custom pricing'')])]),
       (''netlify'', JObj
          [(''pros'', JArr
              [JStr ''Excellent for static sites and JAMstack'',
               JStr ''Built-in form handling'',
               JStr ''Split testing capabilities'',
               JStr ''Edge functions (Netlify Functions)'',
               JStr ''Git integration with automatic deployments'',
               JStr ''Preview deployments'',
               JStr ''Built-in CDN'',
               JStr ''Good free tier'',
               JStr ''Easy custom domain setup'',
               JStr ''Built-in analytics'']),
           (''cons'', JArr
              [JStr ''Less support for complex server-side applications'',
               JStr ''Limited database integration'',
               JStr ''Less flexible than Vercel for full-stack apps'',
               JStr ''Cold starts for functions'',
               JStr ''Less advanced than Vercel for React apps'']),
           (''best_for'', JArr
              [JStr ''Static sites and JAMstack'',
               JStr ''Documentation sites'',
               JStr ''Marketing websites'',
               JStr ''Simple web applications'',
               JStr ''Form-based applications'']),
           (''pricing'', JObj
              [(''starter'', JStr ''Free (with limits)''),
               (''pro'', JStr ''$19/month per team member''),
               (''business'', JStr ''$99/month per team member''),
               (''enterprise'', JStr ''Custom pricing'')])]),
       (''recommendation'', JObj
          [(''primary'', JStr ''Vercel''),
           (''reasoning'', JArr
              [JStr ''Your ecosystem is heavily React/Next.js focused'',
               JStr ''IZA OS and Claude Flow likely use React components'',
               JStr ''Better support for complex applications'',
               JStr ''Superior developer experience'',
               JStr ''Better integration with modern tooling'',
               JStr ''More suitable for AI/ML applications'']),
           (''fallback'', JStr ''Netlify''),
           (''fallback_reasoning'', JArr
              [JStr ''Good alternative for simpler deployments'',
               JStr ''Better pricing for basic use cases'',
               JStr ''Excellent for documentation and marketing sites''])])]\<close>

definition create_deployment_analysis :: "integrator \<Rightarrow> json io" where
  \<open>create_deployment_analysis self =
     (let analysis_path = joinpath (base_path self) ''deployment_analysis.json''
      in io_bind (write_text analysis_path (json_dumps (Some 2) deployment_analysis)) (\<lambda>_.
         io_return deployment_analysis))\<close>

definition connection_document :: "MCPConnection \<Rightarrow> json" where
  \<open>connection_document conn =
     JObj
      [(''name'', JStr (conn_name conn)),
       (''source'', JStr (source conn)),
       (''target'', JStr (target conn)),
       (''protocol'', JStr (protocol conn)),
       (''endpoints'', JArr (map JStr (conn_endpoints conn))),
       (''authentication'', JStr (authentication conn)),
       (''capabilities'', JArr (map JStr (conn_capabilities conn))),
       (''status'', JStr (status conn))]\<close>

definition pattern_document :: "MCPPattern \<Rightarrow> json" where
  \<open>pattern_document pattern =
     JObj
      [(''name'', JStr (pat_name pattern)),
       (''description'', JStr (description pattern)),
       (''source_components'', JArr (map JStr (source_components pattern))),
       (''target_components'', JArr (map JStr (target_components pattern))),
       (''data_flow'', JStr (data_flow pattern)),
       (''trigger_events'', JArr (map JStr (trigger_events pattern))),
       (''response_handling'', JStr (response_handling pattern))]\<close>

text \<open>The dictionary \<^verbatim>\<open>manifest\<close>; \<open>now\<close> is the text the clock returned.\<close>

definition manifest_document :: "string \<Rightarrow> integrator \<Rightarrow> json" where
  \<open>manifest_document now self =
     JObj
      [(''mcp_ecosystem'', JObj
          [(''name'', JStr ''Worldwidebro MCP Ecosystem''),
           (''version'', JStr ''1.0.0''),
           (''created_at'', JStr now),
           (''total_connections'', JInt (int (length (mcp_connections self)))),
           (''total_patterns'', JInt (int (length (mcp_patterns self)))),
           (''servers'', JArr (map (\<lambda>kv. JStr (fst kv)) (mcp_servers self)))]),
       (''connections'', JArr (map connection_document (mcp_connections self))),
       (''patterns'', JArr (map pattern_document (mcp_patterns self))),
       (''deployment'', JObj
          [(''recommended_platform'', JStr ''Vercel''),
           (''reasoning'',
            JStr ''Better support for React/Next.js applications and AI/ML workflows''),
           (''alternative'', JStr ''Netlify''),
           (''configuration_files'', JArr
              [JStr ''vercel.json'',
               JStr ''netlify.toml'',
               JStr ''package.json'',
               JStr ''next.config.js''])])]\<close>

definition create_mcp_integration_manifest :: "integrator \<Rightarrow> unit io" where
  \<open>create_mcp_integration_manifest self =
     io_bind datetime_now_isoformat (\<lambda>now.
       (let manifest = manifest_document now self;
            manifest_path = joinpath (base_path self) ''mcp_ecosystem_manifest.json''
        in write_text manifest_path (json_dumps (Some 2) manifest)))\<close>

definition vercel_config :: json where
  \<open>vercel_config =
     JObj
      [(''version'', JInt 2),
       (''builds'', JArr
          [JObj
            [(''src'', JStr ''iza-os-integrated/50-apps/*/package.json''),
             (''use'', JStr ''@vercel/next'')],
           JObj
            [(''src'',
              JStr ''worldwidebro-repositories/activepieces/packages/server/api/package.json''),
             (''use'', JStr ''@vercel/node'')]]),
       (''routes'', JArr
          [JObj
            [(''src'', JStr ''/api/iza-os/(.*)''),
             (''dest'', JStr ''/iza-os-integrated/00-meta/api/$1'')],
           JObj
            [(''src'', JStr ''/api/activepieces/(.*)''),
             (''dest'', JStr ''/worldwidebro-repositories/activepieces/packages/server/api/$1'')],
           JObj
            [(''src'', JStr ''/api/claude-flow/(.*)''),
             (''dest'', JStr ''/iza-os-integrated/30-models/claude-flow/api/$1'')],
           JObj
            [(''src'', JStr ''/api/github/(.*)''),
             (''dest'', JStr ''/worldwidebro-integration/api/$1'')]]),
       (''env'', JObj
          [(''MCP_SERVER_URL'', JStr ''https://your-domain.vercel.app''),
           (''ACTIVEPIECES_API_KEY'', JStr ''@activepieces_api_key''),
           (''GITHUB_TOKEN'', JStr ''@github_token''),
           (''ANTHROPIC_API_KEY'', JStr ''@anthropic_api_key'')]),
       (''functions'', JObj
          [(''iza-os-integrated/00-meta/api/*.js'', JObj [(''maxDuration'', JInt 30)]),
           (''worldwidebro-repositories/activepieces/packages/server/api/*.js'',
            JObj [(''maxDuration'', JInt 60)])])]\<close>

definition create_vercel_config :: "integrator \<Rightarrow> unit io" where
  \<open>create_vercel_config self =
     (let config_path = joinpath (base_path self) ''vercel.json''
      in write_text config_path (json_dumps (Some 2) vercel_config))\<close>

text \<open>
  The Netlify descriptor is one string literal of 38 lines, each ended by a newline.
\<close>

definition netlify_lines :: "string list" where
  \<open>netlify_lines =
    [''[build]'',
     ''  publish = "dist"'',
     ''  command = "npm run build"'',
     '''',
     ''[build.environment]'',
     ''  NODE_VERSION = "18"'',
     ''  MCP_SERVER_URL = "https://your-domain.netlify.app"'',
     '''',
     ''[[redirects]]'',
     ''  from = "/api/iza-os/*"'',
     ''  to = "/iza-os-integrated/00-meta/api/:splat"'',
     ''  status = 200'',
     '''',
     ''[[redirects]]'',
     ''  from = "/api/activepieces/*"'',
     ''  to = "/worldwidebro-repositories/activepieces/packages/server/api/:splat"'',
     ''  status = 200'',
     '''',
     ''[[redirects]]'',
     ''  from = "/api/claude-flow/*"'',
     ''  to = "/iza-os-integrated/30-models/claude-flow/api/:splat"'',
     ''  status = 200'',
     '''',
     ''[[redirects]]'',
     ''  from = "/api/github/*"'',
     ''  to = "/worldwidebro-integration/api/:splat"'',
     ''  status = 200'',
     '''',
     ''[functions]'',
     ''  directory = "netlify/functions"'',
     ''  node_bundler = "esbuild"'',
     '''',
     ''[[headers]]'',
     ''  for = "/api/*"'',
     ''  [headers.values]'',
     ''    Access-Control-Allow-Origin = "*"'',
     ''    Access-Control-Allow-Headers = "Content-Type, Authorization"'',
     ''    Access-Control-Allow-Methods = "GET, POST, PUT, DELETE, OPTIONS"'']\<close>

definition netlify_config :: string where
  \<open>netlify_config = concat (map (\<lambda>l. l @ [CHR 0x0A]) netlify_lines)\<close>

definition create_netlify_config :: "integrator \<Rightarrow> unit io" where
  \<open>create_netlify_config self =
     (let config_path = joinpath (base_path self) ''netlify.toml''
      in write_text config_path netlify_config)\<close>

text \<open>
  \<^verbatim>\<open>run_integration\<close> returns the integrator as the two assignments left it, whether
  or not a later call raised.
\<close>

definition run_integration :: "integrator \<Rightarrow> world \<Rightarrow> (os_error + unit) \<times> integrator \<times> world" where
  \<open>run_integration self0 w =
     (let self1 = create_mcp_connections self0;
          self2 = create_mcp_patterns self1;
          (r, w') =
            io_bind (create_mcp_server_configs self2) (\<lambda>_.
            io_bind (create_deployment_analysis self2) (\<lambda>deployment_analysis.
            io_bind (create_mcp_integration_manifest self2) (\<lambda>_.
            io_bind (create_vercel_config self2) (\<lambda>_.
            create_netlify_config self2)))) w
      in (r, self2, w'))\<close>

section \<open>Reading the model\<close>

subsection \<open>The registry\<close>

text \<open>
  The ids of the registered servers are the keys of \<^verbatim>\<open>mcp_servers\<close>, in insertion order
  (\<^verbatim>\<open>list(self.mcp_servers.keys())\<close>); the endpoints a server declares are those of its
  entry, and none when the id has no entry.
\<close>

definition server_ids :: "integrator \<Rightarrow> string list" where
  \<open>server_ids self = map fst (mcp_servers self)\<close>

definition registered :: "integrator \<Rightarrow> string \<Rightarrow> bool" where
  \<open>registered self sid \<longleftrightarrow> sid \<in> set (server_ids self)\<close>

definition declared_endpoints :: "integrator \<Rightarrow> string \<Rightarrow> string list" where
  \<open>declared_endpoints self sid =
     (case map_of (mcp_servers self) sid of Some e \<Rightarrow> srv_endpoints e | None \<Rightarrow> [])\<close>

text \<open>Every endpoint a connection lists is declared by its source or by its target.\<close>

definition endpoints_declared :: "integrator \<Rightarrow> MCPConnection \<Rightarrow> bool" where
  \<open>endpoints_declared self conn \<longleftrightarrow>
     list_all (\<lambda>e. e \<in> set (declared_endpoints self (source conn))
                 \<or> e \<in> set (declared_endpoints self (target conn))) (conn_endpoints conn)\<close>

text \<open>
  Two integrators whose registry differs from the one \<^verbatim>\<open>__init__\<close> builds: one that
  keeps a single server, one whose servers declare no endpoint.
\<close>

definition only_server :: "string \<Rightarrow> integrator \<Rightarrow> integrator" where
  \<open>only_server sid self = self\<lparr>mcp_servers := filter (\<lambda>kv. fst kv = sid) (mcp_servers self)\<rparr>\<close>

definition without_endpoints :: "integrator \<Rightarrow> integrator" where
  \<open>without_endpoints self =
     self\<lparr>mcp_servers := map (\<lambda>kv. (fst kv, (snd kv)\<lparr>srv_endpoints := []\<rparr>)) (mcp_servers self)\<rparr>\<close>

subsection \<open>The chain of a pattern\<close>

text \<open>
  The program stores \<^verbatim>\<open>data_flow\<close> as a string and never takes it apart. The chain it
  describes is read with \<^verbatim>\<open>str.split\<close>: the pieces between the occurrences of the
  separator, from left to right.
\<close>

function split_from :: "string \<Rightarrow> string \<Rightarrow> string \<Rightarrow> string list" where
  \<open>split_from sep acc [] = [acc]\<close>
| \<open>split_from sep acc (c # cs) =
     (if sep \<noteq> [] \<and> prefix sep (c # cs)
      then acc # split_from sep [] (drop (length sep) (c # cs))
      else split_from sep (acc @ [c]) cs)\<close>
  by pat_completeness auto
termination
  by (relation "measure (\<lambda>(sep, acc, s). length s)") auto

definition split :: "string \<Rightarrow> string \<Rightarrow> string list" where
  \<open>split s sep = split_from sep [] s\<close>

definition data_flow_tokens :: "MCPPattern \<Rightarrow> string list" where
  \<open>data_flow_tokens p = split (data_flow p) '' -> ''\<close>

text \<open>
  The check on a chain: at least two tokens, every token a registered id, the first
  token among the source components and the last among the target components.
\<close>

definition chain_checked :: "integrator \<Rightarrow> MCPPattern \<Rightarrow> bool" where
  \<open>chain_checked self p \<longleftrightarrow>
     2 \<le> length (data_flow_tokens p)
     \<and> list_all (registered self) (data_flow_tokens p)
     \<and> hd (data_flow_tokens p) \<in> set (source_components p)
     \<and> last (data_flow_tokens p) \<in> set (target_components p)\<close>

subsection \<open>The file-system calls of a run\<close>

text \<open>
  A run makes its calls in a fixed order: for each server the directory and the document
  of the server, then the deployment analysis, the manifest and the two descriptors.
  \<open>run_ops\<close> makes a list of calls one after the other and stops at the first refused
  one.
\<close>

definition accepted :: "world \<Rightarrow> fs_op \<Rightarrow> bool" where
  \<open>accepted w c \<longleftrightarrow> op_path c \<notin> set (refused w)\<close>

fun run_ops :: "fs_op list \<Rightarrow> unit io" where
  \<open>run_ops [] = io_return ()\<close>
| \<open>run_ops (c # cs) = io_bind (attempt c) (\<lambda>_. run_ops cs)\<close>

definition server_config_ops :: "path \<Rightarrow> (string \<times> server_entry) list \<Rightarrow> fs_op list" where
  \<open>server_config_ops base servers =
     concat (map (\<lambda>(server_name, server_config).
       [Mkdir (joinpath base ''mcp-configs''),
        WriteText (joinpath (joinpath base ''mcp-configs'') (server_name @ ''_mcp_config.json''))
          (json_dumps (Some 2) (server_config_document server_name server_config))]) servers)\<close>

definition integration_ops :: "string \<Rightarrow> integrator \<Rightarrow> fs_op list" where
  \<open>integration_ops now self =
     server_config_ops (base_path self) (mcp_servers self)
     @ [WriteText (joinpath (base_path self) ''deployment_analysis.json'')
          (json_dumps (Some 2) deployment_analysis),
        WriteText (joinpath (base_path self) ''mcp_ecosystem_manifest.json'')
          (json_dumps (Some 2) (manifest_document now self)),
        WriteText (joinpath (base_path self) ''vercel.json'') (json_dumps (Some 2) vercel_config),
        WriteText (joinpath (base_path self) ''netlify.toml'') netlify_config]\<close>

definition first_refused :: "world \<Rightarrow> fs_op list \<Rightarrow> os_error + unit" where
  \<open>first_refused w cs =
     (case dropWhile (accepted w) cs of [] \<Rightarrow> Inr () | c # _ \<Rightarrow> Inl (OSError (op_path c)))\<close>

text \<open>The calls a run adds to those made before it, and a world in which none was made.\<close>

definition calls_of_run :: "integrator \<Rightarrow> world \<Rightarrow> fs_op list" where
  \<open>calls_of_run self w =
     drop (length (performed w)) (performed (snd (snd (run_integration self w))))\<close>

definition fresh_world :: "string \<Rightarrow> path list \<Rightarrow> world" where
  \<open>fresh_world now denied = \<lparr>clock = now, refused = denied, performed = []\<rparr>\<close>

text \<open>A server without an entry in the three lookup tables.\<close>

definition plain_entry :: server_entry where
  \<open>plain_entry = \<lparr>srv_name = ''Apple Notes MCP Server'', srv_path = [''/'', ''srv''],
     srv_capabilities = [], srv_endpoints = []\<rparr>\<close>

subsection \<open>The route rules of the descriptors\<close>

text \<open>
  A rule of \<^verbatim>\<open>vercel.json\<close> is an entry of \<^verbatim>\<open>routes\<close> with its \<^verbatim>\<open>src\<close> and
  \<^verbatim>\<open>dest\<close>; a rule of \<^verbatim>\<open>netlify.toml\<close> is a \<^verbatim>\<open>from\<close> line followed by a \<^verbatim>\<open>to\<close>
  line. The rule a server id would have in each descriptor is the prefix
  \<^verbatim>\<open>/api/<id>/\<close> followed by the descriptor's wildcard.
\<close>

definition route_rules :: "json \<Rightarrow> (string \<times> string) list" where
  \<open>route_rules doc =
     (case field ''routes'' doc of
        Some (JArr rs) \<Rightarrow>
          concat (map (\<lambda>r. case (field ''src'' r, field ''dest'' r) of
                              (Some (JStr s), Some (JStr d)) \<Rightarrow> [(s, d)]
                            | _ \<Rightarrow> []) rs)
      | _ \<Rightarrow> [])\<close>

fun rule_lines :: "string list \<Rightarrow> (string \<times> string) list" where
  \<open>rule_lines (l # m # ls) =
     (if prefix ''  from = '' l \<and> prefix ''  to = '' m
      then (drop 9 l, drop 7 m) # rule_lines ls
      else rule_lines (m # ls))\<close>
| \<open>rule_lines _ = []\<close>

definition redirect_rules :: "string \<Rightarrow> (string \<times> string) list" where
  \<open>redirect_rules text = rule_lines (split text [CHR 0x0A])\<close>

definition vercel_route_for :: "string \<Rightarrow> string" where
  \<open>vercel_route_for sid = ''/api/'' @ sid @ ''/(.*)''\<close>

definition netlify_redirect_for :: "string \<Rightarrow> string" where
  \<open>netlify_redirect_for sid = ''"/api/'' @ sid @ ''/*"''\<close>


section \<open>Properties of the liveness probe\<close>












section \<open>Properties of the integrator\<close>

subsection \<open>The calls of a run\<close>

lemma io_bind_return [simp]: \<open>io_bind (io_return x) f = f x\<close>
  by (rule ext) (simp add: io_bind_def io_return_def)

lemma io_bind_assoc: \<open>io_bind (io_bind m f) g = io_bind m (\<lambda>x. io_bind (f x) g)\<close>
  by (rule ext) (simp add: io_bind_def split: prod.splits sum.splits)

lemma run_ops_append: \<open>run_ops (cs @ ds) = io_bind (run_ops cs) (\<lambda>_. run_ops ds)\<close>
  by (induction cs) (simp_all add: io_bind_assoc)

lemma parent_joinpath [simp]: \<open>p \<noteq> [] \<Longrightarrow> parent (joinpath p q) = p\<close>
  by (simp add: parent_def joinpath_def)

lemma server_configs_loop_ops:
  \<open>server_configs_loop base servers = run_ops (server_config_ops base servers)\<close>
proof (induction servers)
  case Nil
  show ?case by (simp add: server_config_ops_def)
next
  case (Cons s servers)
  obtain n c where s: \<open>s = (n, c)\<close> by (cases s)
  have \<open>joinpath base ''mcp-configs'' \<noteq> []\<close> by (simp add: joinpath_def)
  then have par: \<open>parent (joinpath (joinpath base ''mcp-configs'') (n @ ''_mcp_config.json''))
      = joinpath base ''mcp-configs''\<close>
    by simp
  have split_ops: \<open>server_config_ops base ((n, c) # servers)
      = [Mkdir (joinpath base ''mcp-configs''),
         WriteText (joinpath (joinpath base ''mcp-configs'') (n @ ''_mcp_config.json''))
           (json_dumps (Some 2) (server_config_document n c))] @ server_config_ops base servers\<close>
    by (simp add: server_config_ops_def)
  show ?case
    unfolding s split_ops
    by (simp add: Let_def par mkdir_exist_ok_def write_text_def Cons.IH del: parent_joinpath)
qed

lemma run_ops_result:
  \<open>run_ops cs w = (first_refused w cs, w\<lparr>performed := performed w @ takeWhile (accepted w) cs\<rparr>)\<close>
proof (induction cs arbitrary: w)
  case Nil
  show ?case by (simp add: io_return_def first_refused_def)
next
  case (Cons c cs)
  show ?case
  proof (cases \<open>accepted w c\<close>)
    case True
    let ?w = \<open>w\<lparr>performed := performed w @ [c]\<rparr>\<close>
    have same: \<open>accepted ?w = accepted w\<close>
      by (rule ext) (simp add: accepted_def)
    from True have \<open>run_ops (c # cs) w = run_ops cs ?w\<close>
      by (simp add: io_bind_def attempt_def accepted_def)
    with Cons.IH [of ?w] True show ?thesis
      by (simp add: same first_refused_def)
  next
    case False
    then show ?thesis
      by (simp add: io_bind_def attempt_def accepted_def first_refused_def)
  qed
qed

lemma tail_ops:
  \<open>io_bind (create_deployment_analysis self) (\<lambda>deployment_analysis.
     io_bind (create_mcp_integration_manifest self) (\<lambda>_.
     io_bind (create_vercel_config self) (\<lambda>_.
     create_netlify_config self))) w
   = run_ops
      [WriteText (joinpath (base_path self) ''deployment_analysis.json'')
         (json_dumps (Some 2) deployment_analysis),
       WriteText (joinpath (base_path self) ''mcp_ecosystem_manifest.json'')
         (json_dumps (Some 2) (manifest_document (clock w) self)),
       WriteText (joinpath (base_path self) ''vercel.json'') (json_dumps (Some 2) vercel_config),
       WriteText (joinpath (base_path self) ''netlify.toml'') netlify_config] w\<close>
  by (simp add: create_deployment_analysis_def create_mcp_integration_manifest_def
      create_vercel_config_def create_netlify_config_def write_text_def
      datetime_now_isoformat_def io_bind_def io_return_def attempt_def Let_def)

lemma generators_ops:
  \<open>io_bind (create_mcp_server_configs self) (\<lambda>_.
     io_bind (create_deployment_analysis self) (\<lambda>deployment_analysis.
     io_bind (create_mcp_integration_manifest self) (\<lambda>_.
     io_bind (create_vercel_config self) (\<lambda>_.
     create_netlify_config self)))) w
   = run_ops (integration_ops (clock w) self) w\<close>
  (is \<open>io_bind _ (\<lambda>_. ?T) w = _\<close>)
proof -
  let ?A = \<open>server_config_ops (base_path self) (mcp_servers self)\<close>
  let ?wA = \<open>w\<lparr>performed := performed w @ takeWhile (accepted w) ?A\<rparr>\<close>
  let ?B = \<open>[WriteText (joinpath (base_path self) ''deployment_analysis.json'')
         (json_dumps (Some 2) deployment_analysis),
       WriteText (joinpath (base_path self) ''mcp_ecosystem_manifest.json'')
         (json_dumps (Some 2) (manifest_document (clock w) self)),
       WriteText (joinpath (base_path self) ''vercel.json'') (json_dumps (Some 2) vercel_config),
       WriteText (joinpath (base_path self) ''netlify.toml'') netlify_config]\<close>
  have A: \<open>run_ops ?A w = (first_refused w ?A, ?wA)\<close>
    by (rule run_ops_result)
  have tail: \<open>?T ?wA = run_ops ?B ?wA\<close>
    using tail_ops [of self ?wA] by simp
  have lhs: \<open>io_bind (create_mcp_server_configs self) (\<lambda>_. ?T) w
      = (case first_refused w ?A of Inl e \<Rightarrow> (Inl e, ?wA) | Inr x \<Rightarrow> run_ops ?B ?wA)\<close>
    unfolding create_mcp_server_configs_def server_configs_loop_ops io_bind_def A tail [symmetric]
    by (simp split: sum.splits)
  have rhs: \<open>run_ops (integration_ops (clock w) self) w
      = (case first_refused w ?A of Inl e \<Rightarrow> (Inl e, ?wA) | Inr x \<Rightarrow> run_ops ?B ?wA)\<close>
    unfolding integration_ops_def run_ops_append io_bind_def A
    by (simp split: sum.splits)
  from lhs rhs show ?thesis by simp
qed

lemma run_integration_ops:
  \<open>run_integration self w =
     (let self' = create_mcp_patterns (create_mcp_connections self)
      in (first_refused w (integration_ops (clock w) self'), self',
          w\<lparr>performed := performed w
             @ takeWhile (accepted w) (integration_ops (clock w) self')\<rparr>))\<close>
  by (simp add: run_integration_def generators_ops run_ops_result Let_def)

lemma create_keeps [simp]:
  \<open>base_path (create_mcp_connections self) = base_path self\<close>
  \<open>mcp_servers (create_mcp_connections self) = mcp_servers self\<close>
  \<open>mcp_patterns (create_mcp_connections self) = mcp_patterns self\<close>
  \<open>base_path (create_mcp_patterns self) = base_path self\<close>
  \<open>mcp_servers (create_mcp_patterns self) = mcp_servers self\<close>
  \<open>mcp_connections (create_mcp_patterns self) = mcp_connections self\<close>
  by (simp_all add: create_mcp_connections_def create_mcp_patterns_def)

lemma create_overwrites:
  \<open>mcp_connections (create_mcp_connections self) = mcp_connections (create_mcp_connections self')\<close>
  \<open>mcp_patterns (create_mcp_patterns self) = mcp_patterns (create_mcp_patterns self')\<close>
  by (simp_all add: create_mcp_connections_def create_mcp_patterns_def)

lemma manifest_document_cong:
  \<open>mcp_connections s1 = mcp_connections s2 \<Longrightarrow> mcp_patterns s1 = mcp_patterns s2 \<Longrightarrow>
   mcp_servers s1 = mcp_servers s2 \<Longrightarrow> manifest_document now s1 = manifest_document now s2\<close>
  by (simp add: manifest_document_def)

lemma integration_ops_cong:
  assumes \<open>base_path s1 = base_path s2\<close> and \<open>mcp_servers s1 = mcp_servers s2\<close>
  shows \<open>integration_ops now (create_mcp_patterns (create_mcp_connections s1))
       = integration_ops now (create_mcp_patterns (create_mcp_connections s2))\<close>
proof -
  have \<open>manifest_document now (create_mcp_patterns (create_mcp_connections s1))
      = manifest_document now (create_mcp_patterns (create_mcp_connections s2))\<close>
    using assms
    by (intro manifest_document_cong)
       (simp_all add: create_overwrites(1) [of s1 s2]
          create_overwrites(2) [of \<open>create_mcp_connections s1\<close> \<open>create_mcp_connections s2\<close>])
  with assms show ?thesis by (simp add: integration_ops_def)
qed

lemma calls_of_run_eq:
  \<open>calls_of_run self w =
     takeWhile (accepted w)
       (integration_ops (clock w) (create_mcp_patterns (create_mcp_connections self)))\<close>
  by (simp add: calls_of_run_def run_integration_ops Let_def)

lemma result_of_run_eq:
  \<open>fst (run_integration self w) =
     first_refused w (integration_ops (clock w) (create_mcp_patterns (create_mcp_connections self)))\<close>
  by (simp add: run_integration_ops Let_def)

lemma accepted_cong: \<open>refused w1 = refused w2 \<Longrightarrow> accepted w1 = accepted w2\<close>
  by (rule ext) (simp add: accepted_def)

lemma init_ops:
  \<open>integration_ops now (create_mcp_patterns (create_mcp_connections (init bp)))
   = [Mkdir (bp @ [''mcp-configs'']),
      WriteText (bp @ [''mcp-configs'', ''activepieces_mcp_config.json''])
        (json_dumps (Some 2) (server_config_document ''activepieces''
           (the (map_of (mcp_servers (init bp)) ''activepieces'')))),
      Mkdir (bp @ [''mcp-configs'']),
      WriteText (bp @ [''mcp-configs'', ''claude_flow_mcp_config.json''])
        (json_dumps (Some 2) (server_config_document ''claude_flow''
           (the (map_of (mcp_servers (init bp)) ''claude_flow'')))),
      Mkdir (bp @ [''mcp-configs'']),
      WriteText (bp @ [''mcp-configs'', ''iza_os_core_mcp_config.json''])
        (json_dumps (Some 2) (server_config_document ''iza_os_core''
           (the (map_of (mcp_servers (init bp)) ''iza_os_core'')))),
      Mkdir (bp @ [''mcp-configs'']),
      WriteText (bp @ [''mcp-configs'', ''github_integration_mcp_config.json''])
        (json_dumps (Some 2) (server_config_document ''github_integration''
           (the (map_of (mcp_servers (init bp)) ''github_integration'')))),
      WriteText (bp @ [''deployment_analysis.json'']) (json_dumps (Some 2) deployment_analysis),
      WriteText (bp @ [''mcp_ecosystem_manifest.json''])
        (json_dumps (Some 2)
           (manifest_document now (create_mcp_patterns (create_mcp_connections (init bp))))),
      WriteText (bp @ [''vercel.json'']) (json_dumps (Some 2) vercel_config),
      WriteText (bp @ [''netlify.toml'']) netlify_config]\<close>
  by (simp add: integration_ops_def server_config_ops_def joinpath_def)
     (simp add: init_def Let_def)

subsection \<open>The declared data\<close>

lemma init_server_ids:
  \<open>server_ids (init bp) = [''activepieces'', ''claude_flow'', ''iza_os_core'', ''github_integration'']\<close>
  by (simp add: server_ids_def init_def Let_def)

lemma server_ids_create [simp]:
  \<open>server_ids (create_mcp_connections self) = server_ids self\<close>
  \<open>server_ids (create_mcp_patterns self) = server_ids self\<close>
  by (simp_all add: server_ids_def)

lemma declared_endpoints_create [simp]:
  \<open>declared_endpoints (create_mcp_connections self) = declared_endpoints self\<close>
  by (rule ext) (simp add: declared_endpoints_def)

lemma init_declared_endpoints:
  \<open>declared_endpoints (init bp) ''activepieces''
     = [''/api/v1/flows'', ''/api/v1/triggers'', ''/api/v1/actions'']\<close>
  \<open>declared_endpoints (init bp) ''claude_flow''
     = [''/api/v1/agents'', ''/api/v1/conversations'', ''/api/v1/workflows'']\<close>
  \<open>declared_endpoints (init bp) ''iza_os_core''
     = [''/api/v1/config'', ''/api/v1/registry'', ''/api/v1/status'']\<close>
  \<open>declared_endpoints (init bp) ''github_integration''
     = [''/api/v1/repos'', ''/api/v1/analysis'', ''/api/v1/collaboration'']\<close>
  by (simp_all add: declared_endpoints_def init_def Let_def)

lemma connection_endpoints:
  \<open>map (\<lambda>c. (source c, target c, conn_endpoints c)) (mcp_connections (create_mcp_connections self))
   = [(''activepieces'', ''iza_os_core'', [''/api/v1/flows'', ''/api/v1/config'']),
      (''claude_flow'', ''activepieces'', [''/api/v1/agents'', ''/api/v1/flows'']),
      (''github_integration'', ''iza_os_core'', [''/api/v1/repos'', ''/api/v1/registry'']),
      (''iza_os_core'', ''claude_flow'', [''/api/v1/config'', ''/api/v1/agents'']),
      (''activepieces'', ''github_integration'', [''/api/v1/flows'', ''/api/v1/repos''])]\<close>
  by (simp add: create_mcp_connections_def new_MCPConnection_def)

lemma pattern_chains:
  \<open>map (\<lambda>p. (data_flow_tokens p, source_components p, target_components p))
      (mcp_patterns (create_mcp_patterns self))
   = [([''github'', ''claude_flow'', ''iza_os_core'', ''activepieces''],
       [''github_integration'', ''claude_flow''], [''iza_os_core'', ''activepieces'']),
      ([''claude_flow'', ''iza_os_core'', ''activepieces'', ''github_integration''],
       [''claude_flow'', ''iza_os_core''], [''activepieces'', ''github_integration'']),
      ([''iza_os_core'', ''activepieces'', ''claude_flow'', ''github_integration''],
       [''iza_os_core'', ''activepieces''], [''claude_flow'', ''github_integration'']),
      ([''activepieces'', ''claude_flow'', ''github_integration'', ''iza_os_core''],
       [''activepieces'', ''claude_flow''], [''github_integration'', ''iza_os_core''])]\<close>
  by (simp add: create_mcp_patterns_def data_flow_tokens_def split_def)

lemma list_all_map_iff: \<open>list_all P (map f xs) = list_all (\<lambda>x. P (f x)) xs\<close>
  by (induction xs) simp_all

lemma unlisted_server:
  \<open>map_of tools_map ''apple_notes'' = None\<close>
  \<open>map_of resources_map ''apple_notes'' = None\<close>
  \<open>map_of prompts_map ''apple_notes'' = None\<close>
  by (simp_all add: tools_map_def resources_map_def prompts_map_def)

lemma inj_JStr_map: \<open>map JStr xs = map JStr ys \<longleftrightarrow> xs = ys\<close>
  by (simp add: inj_map_eq_map inj_on_def)

lemma inj_connection_document: \<open>inj connection_document\<close>
  by (rule injI) (simp add: connection_document_def inj_JStr_map)

lemma inj_pattern_document: \<open>inj pattern_document\<close>
  by (rule injI) (simp add: pattern_document_def inj_JStr_map)

lemma vercel_rules:
  \<open>route_rules vercel_config =
     [(''/api/iza-os/(.*)'', ''/iza-os-integrated/00-meta/api/$1''),
      (''/api/activepieces/(.*)'',
       ''/worldwidebro-repositories/activepieces/packages/server/api/$1''),
      (''/api/claude-flow/(.*)'', ''/iza-os-integrated/30-models/claude-flow/api/$1''),
      (''/api/github/(.*)'', ''/worldwidebro-integration/api/$1'')]\<close>
  by (simp add: route_rules_def vercel_config_def)

lemma split_from_line:
  \<open>CHR 0x0A \<notin> set l \<Longrightarrow>
   split_from [CHR 0x0A] acc (l @ CHR 0x0A # rest) = (acc @ l) # split_from [CHR 0x0A] [] rest\<close>
  by (induction l arbitrary: acc) auto

lemma split_lines:
  \<open>list_all (\<lambda>l. CHR 0x0A \<notin> set l) ls \<Longrightarrow>
   split (concat (map (\<lambda>l. l @ [CHR 0x0A]) ls)) [CHR 0x0A] = ls @ [[]]\<close>
  unfolding split_def
  by (induction ls) (simp_all add: split_from_line)

lemma netlify_split: \<open>split netlify_config [CHR 0x0A] = netlify_lines @ [[]]\<close>
  unfolding netlify_config_def
  by (rule split_lines) (simp add: netlify_lines_def)

lemma netlify_rules:
  \<open>redirect_rules netlify_config =
     [(''"/api/iza-os/*"'', ''"/iza-os-integrated/00-meta/api/:splat"''),
      (''"/api/activepieces/*"'',
       ''"/worldwidebro-repositories/activepieces/packages/server/api/:splat"''),
      (''"/api/claude-flow/*"'', ''"/iza-os-integrated/30-models/claude-flow/api/:splat"''),
      (''"/api/github/*"'', ''"/worldwidebro-integration/api/:splat"'')]\<close>
  unfolding redirect_rules_def netlify_split
  by (simp add: netlify_lines_def)

subsection \<open>Connections and the registry\<close>

text \<open>
  Claim C1 as stated fails. With a registry that holds only \<^verbatim>\<open>iza_os_core\<close>,
  \<^verbatim>\<open>create_mcp_connections\<close> returns normally and stores the connection from
  \<^verbatim>\<open>activepieces\<close> to \<^verbatim>\<open>iza_os_core\<close>, whose source is not registered: the stored list,
  empty before, has changed.
\<close>

theorem unknown_server_counterexample:
  \<open>let self = only_server ''iza_os_core'' (init default_base_path);
       conn = hd (mcp_connections (create_mcp_connections self))
   in server_ids self = [''iza_os_core'']
      \<and> mcp_connections self = []
      \<and> conn \<in> set (mcp_connections (create_mcp_connections self))
      \<and> source conn = ''activepieces''
      \<and> target conn = ''iza_os_core''
      \<and> \<not> registered self (source conn)
      \<and> mcp_connections (create_mcp_connections self) \<noteq> mcp_connections self\<close>
  by (simp add: only_server_def server_ids_def registered_def init_def create_mcp_connections_def
      new_MCPConnection_def Let_def)

text \<open>
  Claim C1, amended. \<^verbatim>\<open>create_mcp_connections\<close> checks nothing and cannot fail: whatever
  the integrator holds, it stores the same five declared connections and leaves the
  registry as it was. When the registered ids are those of \<^verbatim>\<open>__init__\<close>, the source and
  the target of every stored connection are registered ids.
\<close>

theorem create_mcp_connections_unchecked:
  \<open>mcp_connections (create_mcp_connections self) = mcp_connections (create_mcp_connections self')
   \<and> length (mcp_connections (create_mcp_connections self)) = 5
   \<and> mcp_servers (create_mcp_connections self) = mcp_servers self
   \<and> (server_ids self = server_ids (init bp) \<longrightarrow>
        list_all (\<lambda>conn. registered self (source conn) \<and> registered self (target conn))
          (mcp_connections (create_mcp_connections self)))\<close>
proof -
  have \<open>list_all (\<lambda>conn. registered self (source conn) \<and> registered self (target conn))
          (mcp_connections (create_mcp_connections self))\<close>
    if \<open>server_ids self = server_ids (init bp)\<close>
    using that
    by (simp add: create_mcp_connections_def new_MCPConnection_def registered_def init_server_ids)
  moreover have \<open>length (mcp_connections (create_mcp_connections self)) = 5\<close>
    by (simp add: create_mcp_connections_def)
  ultimately show ?thesis
    using create_overwrites(1) [of self self'] by simp
qed

theorem create_mcp_connections_unchecked_witness:
  \<open>server_ids (init default_base_path) = server_ids (init default_base_path)
   \<and> list_all (\<lambda>conn. registered (init default_base_path) (source conn)
                    \<and> registered (init default_base_path) (target conn))
        (mcp_connections (create_mcp_connections (init default_base_path)))
   \<and> length (mcp_connections (create_mcp_connections (init default_base_path))) = 5\<close>
  using create_mcp_connections_unchecked
    [of \<open>init default_base_path\<close> \<open>init default_base_path\<close> default_base_path]
  by simp

text \<open>
  Claim C3 as stated fails in its second half. With a registry whose servers declare no
  endpoint, the first connection lists \<^verbatim>\<open>/api/v1/flows\<close> and \<^verbatim>\<open>/api/v1/config\<close>, which
  neither its source nor its target declares, and \<^verbatim>\<open>create_mcp_connections\<close> stores it
  all the same.
\<close>

theorem endpoint_mismatch_counterexample:
  \<open>let self = without_endpoints (init default_base_path);
       conn = hd (mcp_connections (create_mcp_connections self))
   in declared_endpoints self (source conn) = []
      \<and> declared_endpoints self (target conn) = []
      \<and> conn_endpoints conn = [''/api/v1/flows'', ''/api/v1/config'']
      \<and> \<not> endpoints_declared self conn
      \<and> mcp_connections self = []
      \<and> conn \<in> set (mcp_connections (create_mcp_connections self))\<close>
  by (simp add: without_endpoints_def declared_endpoints_def endpoints_declared_def init_def
      create_mcp_connections_def new_MCPConnection_def Let_def)

text \<open>
  Claim C3, amended. With the registry of \<^verbatim>\<open>__init__\<close>, every endpoint of every stored
  connection is declared by the connection's source or by its target. Nothing is
  rejected: the stored connections are the same five whatever the registry holds.
\<close>

theorem connection_endpoints_declared:
  \<open>(mcp_servers self = mcp_servers (init bp) \<longrightarrow>
      list_all (endpoints_declared self) (mcp_connections (create_mcp_connections self)))
   \<and> mcp_connections (create_mcp_connections self)
       = mcp_connections (create_mcp_connections self')\<close>
proof -
  have \<open>list_all (endpoints_declared self) (mcp_connections (create_mcp_connections self))\<close>
    if eq: \<open>mcp_servers self = mcp_servers (init bp)\<close>
  proof -
    from eq have de: \<open>declared_endpoints self = declared_endpoints (init bp)\<close>
      by (intro ext) (simp add: declared_endpoints_def)
    have \<open>list_all (\<lambda>(s, t, es). list_all (\<lambda>e. e \<in> set (declared_endpoints self s)
              \<or> e \<in> set (declared_endpoints self t)) es)
            (map (\<lambda>c. (source c, target c, conn_endpoints c))
               (mcp_connections (create_mcp_connections self)))\<close>
      unfolding connection_endpoints de by (simp add: init_declared_endpoints)
    moreover have \<open>endpoints_declared self
        = (\<lambda>c. list_all (\<lambda>e. e \<in> set (declared_endpoints self (source c))
              \<or> e \<in> set (declared_endpoints self (target c))) (conn_endpoints c))\<close>
      by (rule ext) (simp add: endpoints_declared_def)
    ultimately show ?thesis
      by (simp add: list_all_map_iff)
  qed
  then show ?thesis
    using create_overwrites(1) [of self self'] by simp
qed

theorem connection_endpoints_declared_witness:
  \<open>mcp_servers (init default_base_path) = mcp_servers (init default_base_path)
   \<and> list_all (endpoints_declared (init default_base_path))
        (mcp_connections (create_mcp_connections (init default_base_path)))\<close>
  using connection_endpoints_declared
    [of \<open>init default_base_path\<close> default_base_path \<open>init default_base_path\<close>]
  by simp

subsection \<open>Patterns and their chains\<close>

text \<open>
  Claim C2. After \<^verbatim>\<open>create_mcp_patterns\<close> the model holds four patterns. The chains of
  the second, third and fourth pass the check: their tokens are registered ids, the first
  among the source components and the last among the target components. The chain of the
  first, \<^verbatim>\<open>Repository Analysis Workflow\<close>, does not: it starts with the token
  \<^verbatim>\<open>github\<close>, which is no registered id and no member of the pattern's source
  components, where the pattern's own source components and the chains of the other
  patterns write \<^verbatim>\<open>github_integration\<close>. With that id in place of the token the chain
  passes the check.
\<close>

theorem data_flow_chain_check:
  \<open>let self = create_mcp_patterns (create_mcp_connections (init default_base_path));
       p = hd (mcp_patterns self)
   in map (chain_checked self) (mcp_patterns self) = [False, True, True, True]
      \<and> pat_name p = ''Repository Analysis Workflow''
      \<and> data_flow p = ''github -> claude_flow -> iza_os_core -> activepieces''
      \<and> data_flow_tokens p = [''github'', ''claude_flow'', ''iza_os_core'', ''activepieces'']
      \<and> source_components p = [''github_integration'', ''claude_flow'']
      \<and> server_ids self
          = [''activepieces'', ''claude_flow'', ''iza_os_core'', ''github_integration'']
      \<and> \<not> registered self (hd (data_flow_tokens p))
      \<and> hd (data_flow_tokens p) \<notin> set (source_components p)
      \<and> chain_checked self
          (p\<lparr>data_flow := ''github_integration -> claude_flow -> iza_os_core -> activepieces''\<rparr>)\<close>
proof -
  define self where \<open>self = create_mcp_patterns (create_mcp_connections (init default_base_path))\<close>
  have ids: \<open>server_ids self
      = [''activepieces'', ''claude_flow'', ''iza_os_core'', ''github_integration'']\<close>
    by (simp add: self_def init_server_ids)
  have \<open>map (\<lambda>(ts, ss, gs). 2 \<le> length ts \<and> list_all (registered self) ts
            \<and> hd ts \<in> set ss \<and> last ts \<in> set gs)
          (map (\<lambda>p. (data_flow_tokens p, source_components p, target_components p))
             (mcp_patterns self)) = [False, True, True, True]\<close>
    unfolding self_def pattern_chains
    by (simp add: registered_def init_server_ids)
  moreover have \<open>chain_checked self
      = (\<lambda>p. 2 \<le> length (data_flow_tokens p)
            \<and> list_all (registered self) (data_flow_tokens p)
            \<and> hd (data_flow_tokens p) \<in> set (source_components p)
            \<and> last (data_flow_tokens p) \<in> set (target_components p))\<close>
    by (rule ext) (simp add: chain_checked_def)
  ultimately have checks: \<open>map (chain_checked self) (mcp_patterns self)
      = [False, True, True, True]\<close>
    by (simp add: comp_def)
  have first: \<open>hd (mcp_patterns self)
      = \<lparr>pat_name = ''Repository Analysis Workflow'',
         description = ''Automated analysis of new repositories using AI agents'',
         source_components = [''github_integration'', ''claude_flow''],
         target_components = [''iza_os_core'', ''activepieces''],
         data_flow = ''github -> claude_flow -> iza_os_core -> activepieces'',
         trigger_events = [''new_repository'', ''code_push'', ''pull_request''],
         response_handling = ''async_with_webhook''\<rparr>\<close>
    by (simp add: self_def create_mcp_patterns_def)
  have rest:
    \<open>pat_name (hd (mcp_patterns self)) = ''Repository Analysis Workflow''\<close>
    \<open>data_flow (hd (mcp_patterns self))
      = ''github -> claude_flow -> iza_os_core -> activepieces''\<close>
    \<open>data_flow_tokens (hd (mcp_patterns self))
      = [''github'', ''claude_flow'', ''iza_os_core'', ''activepieces'']\<close>
    \<open>source_components (hd (mcp_patterns self)) = [''github_integration'', ''claude_flow'']\<close>
    \<open>\<not> registered self (hd (data_flow_tokens (hd (mcp_patterns self))))\<close>
    \<open>hd (data_flow_tokens (hd (mcp_patterns self)))
      \<notin> set (source_components (hd (mcp_patterns self)))\<close>
    \<open>chain_checked self ((hd (mcp_patterns self))
       \<lparr>data_flow := ''github_integration -> claude_flow -> iza_os_core -> activepieces''\<rparr>)\<close>
    unfolding first
    by (simp_all add: data_flow_tokens_def split_def chain_checked_def registered_def ids)
  show ?thesis
    unfolding Let_def self_def [symmetric]
    by (intro conjI) (fact checks ids rest)+
qed


subsection \<open>Two runs\<close>

text \<open>
  Claim C4. Two runs that start from integrators with the same base path and the same
  registry, read the same time from the clock and meet the same refusals make the same
  file-system calls, path for path and text for text, and end the same way. What the
  integrator held in its connection and pattern lists before the run does not matter,
  so this covers a second run of the integrator a first run has left behind.
\<close>

theorem run_integration_deterministic:
  assumes \<open>base_path s1 = base_path s2\<close> and \<open>mcp_servers s1 = mcp_servers s2\<close>
    and \<open>clock w1 = clock w2\<close> and \<open>refused w1 = refused w2\<close>
  shows \<open>calls_of_run s1 w1 = calls_of_run s2 w2
       \<and> fst (run_integration s1 w1) = fst (run_integration s2 w2)\<close>
  using assms integration_ops_cong [of s1 s2 \<open>clock w2\<close>] accepted_cong [of w1 w2]
  by (simp add: calls_of_run_eq result_of_run_eq first_refused_def)

theorem run_integration_deterministic_witness:
  \<open>let s0 = init default_base_path;
       w0 = fresh_world ''2025-01-01T00:00:00'' [];
       s1 = fst (snd (run_integration s0 w0));
       w1 = snd (snd (run_integration s0 w0))
   in base_path s1 = base_path s0 \<and> mcp_servers s1 = mcp_servers s0
      \<and> clock w1 = clock w0 \<and> refused w1 = refused w0
      \<and> mcp_connections s0 = [] \<and> length (mcp_connections s1) = 5
      \<and> calls_of_run s1 w1 = calls_of_run s0 w0
      \<and> fst (run_integration s1 w1) = fst (run_integration s0 w0)\<close>
proof -
  define s0 where \<open>s0 = init default_base_path\<close>
  define w0 where \<open>w0 = fresh_world ''2025-01-01T00:00:00'' []\<close>
  define s1 where \<open>s1 = fst (snd (run_integration s0 w0))\<close>
  define w1 where \<open>w1 = snd (snd (run_integration s0 w0))\<close>
  have s1: \<open>s1 = create_mcp_patterns (create_mcp_connections s0)\<close>
    by (simp add: s1_def run_integration_ops Let_def)
  have h: \<open>base_path s1 = base_path s0\<close> \<open>mcp_servers s1 = mcp_servers s0\<close>
    \<open>clock w1 = clock w0\<close> \<open>refused w1 = refused w0\<close>
    by (simp_all add: s1 w1_def run_integration_ops Let_def)
  have e: \<open>mcp_connections s0 = []\<close> \<open>length (mcp_connections s1) = 5\<close>
    by (simp_all add: s1 s0_def init_def create_mcp_connections_def Let_def)
  from h e run_integration_deterministic [OF h] show ?thesis
    by (simp add: s0_def w0_def s1_def w1_def Let_def)
qed

subsection \<open>A failed write\<close>

text \<open>
  Claim C5 as stated fails. When the operating system refuses the write of
  \<^verbatim>\<open>mcp_ecosystem_manifest.json\<close> and nothing else, the run ends with the \<^verbatim>\<open>OSError\<close>
  of that write: the four server documents and the deployment analysis are written, and
  neither \<^verbatim>\<open>vercel.json\<close> nor \<^verbatim>\<open>netlify.toml\<close> is attempted, though neither is refused.
\<close>

theorem partial_failure_counterexample:
  \<open>let self = init default_base_path;
       manifest_path = default_base_path @ [''mcp_ecosystem_manifest.json''];
       w = fresh_world ''2025-01-01T00:00:00'' [manifest_path]
   in fst (run_integration self w) = Inl (OSError manifest_path)
      \<and> map op_path (calls_of_run self w)
          = [default_base_path @ [''mcp-configs''],
             default_base_path @ [''mcp-configs'', ''activepieces_mcp_config.json''],
             default_base_path @ [''mcp-configs''],
             default_base_path @ [''mcp-configs'', ''claude_flow_mcp_config.json''],
             default_base_path @ [''mcp-configs''],
             default_base_path @ [''mcp-configs'', ''iza_os_core_mcp_config.json''],
             default_base_path @ [''mcp-configs''],
             default_base_path @ [''mcp-configs'', ''github_integration_mcp_config.json''],
             default_base_path @ [''deployment_analysis.json'']]
      \<and> default_base_path @ [''vercel.json''] \<notin> set (refused w)
      \<and> default_base_path @ [''vercel.json''] \<notin> op_path ` set (calls_of_run self w)
      \<and> default_base_path @ [''netlify.toml''] \<notin> set (refused w)
      \<and> default_base_path @ [''netlify.toml''] \<notin> op_path ` set (calls_of_run self w)\<close>
  by (simp add: Let_def calls_of_run_eq result_of_run_eq fresh_world_def init_ops
      first_refused_def accepted_def default_base_path_def)

text \<open>
  Claim C5, amended. A run makes its calls in their fixed order and stops at the first
  one the operating system refuses: the run ends with the \<^verbatim>\<open>OSError\<close> of that call, the
  calls before it are made and none after it is attempted. When no call is refused, all
  are made and the run returns normally. There is no run report.
\<close>

theorem run_integration_aborts_at_first_refusal:
  \<open>(list_all (accepted w)
       (integration_ops (clock w) (create_mcp_patterns (create_mcp_connections self))) \<longrightarrow>
      fst (run_integration self w) = Inr ()
      \<and> calls_of_run self w
          = integration_ops (clock w) (create_mcp_patterns (create_mcp_connections self)))
   \<and> (integration_ops (clock w) (create_mcp_patterns (create_mcp_connections self))
         = cs @ c # ds
       \<and> list_all (accepted w) cs \<and> \<not> accepted w c \<longrightarrow>
      fst (run_integration self w) = Inl (OSError (op_path c))
      \<and> calls_of_run self w = cs)\<close>
proof -
  let ?ops = \<open>integration_ops (clock w) (create_mcp_patterns (create_mcp_connections self))\<close>
  have all: \<open>fst (run_integration self w) = Inr () \<and> calls_of_run self w = ?ops\<close>
    if \<open>list_all (accepted w) ?ops\<close>
  proof -
    from that have tw: \<open>takeWhile (accepted w) ?ops = ?ops\<close>
      and dw: \<open>dropWhile (accepted w) ?ops = []\<close>
      by (simp_all add: list_all_iff)
    show ?thesis
      unfolding calls_of_run_eq result_of_run_eq first_refused_def tw dw by simp
  qed
  have stop: \<open>fst (run_integration self w) = Inl (OSError (op_path c)) \<and> calls_of_run self w = cs\<close>
    if \<open>?ops = cs @ c # ds\<close> \<open>list_all (accepted w) cs\<close> \<open>\<not> accepted w c\<close>
  proof -
    from that have tw: \<open>takeWhile (accepted w) ?ops = cs\<close>
      and dw: \<open>dropWhile (accepted w) ?ops = c # ds\<close>
      by (simp_all add: list_all_iff takeWhile_append2 dropWhile_append2)
    show ?thesis
      unfolding calls_of_run_eq result_of_run_eq first_refused_def tw dw by simp
  qed
  from all stop show ?thesis by blast
qed

theorem run_integration_aborts_at_first_refusal_witness:
  \<open>let self = init default_base_path;
       analysis_path = default_base_path @ [''deployment_analysis.json''];
       w = fresh_world ''2025-01-01T00:00:00'' [analysis_path];
       ops = integration_ops (clock w) (create_mcp_patterns (create_mcp_connections self))
   in ops = take 8 ops @ ops ! 8 # drop 9 ops
      \<and> list_all (accepted w) (take 8 ops)
      \<and> \<not> accepted w (ops ! 8)
      \<and> op_path (ops ! 8) = analysis_path
      \<and> fst (run_integration self w) = Inl (OSError analysis_path)
      \<and> calls_of_run self w = take 8 ops
      \<and> map op_path (drop 9 ops)
          = [default_base_path @ [''mcp_ecosystem_manifest.json''],
             default_base_path @ [''vercel.json''],
             default_base_path @ [''netlify.toml'']]\<close>
proof -
  define self where \<open>self = init default_base_path\<close>
  define w where \<open>w = fresh_world ''2025-01-01T00:00:00''
    [default_base_path @ [''deployment_analysis.json'']]\<close>
  define ops where
    \<open>ops = integration_ops (clock w) (create_mcp_patterns (create_mcp_connections self))\<close>
  have len: \<open>length ops = 12\<close>
    by (simp add: ops_def self_def init_ops)
  then have eq: \<open>ops = take 8 ops @ ops ! 8 # drop 9 ops\<close>
    using id_take_nth_drop [of 8 ops] by simp
  have acc: \<open>list_all (accepted w) (take 8 ops)\<close>
    by (simp add: ops_def self_def init_ops w_def fresh_world_def accepted_def
        default_base_path_def)
  have rej: \<open>\<not> accepted w (ops ! 8)\<close>
    and pth: \<open>op_path (ops ! 8) = default_base_path @ [''deployment_analysis.json'']\<close>
    by (simp_all add: ops_def self_def init_ops w_def fresh_world_def accepted_def)
  have rest: \<open>map op_path (drop 9 ops)
      = [default_base_path @ [''mcp_ecosystem_manifest.json''],
         default_base_path @ [''vercel.json''],
         default_base_path @ [''netlify.toml'']]\<close>
    by (simp add: ops_def self_def init_ops)
  from run_integration_aborts_at_first_refusal [of w self \<open>take 8 ops\<close> \<open>ops ! 8\<close> \<open>drop 9 ops\<close>]
    eq acc rej
  have \<open>fst (run_integration self w) = Inl (OSError (op_path (ops ! 8)))
      \<and> calls_of_run self w = take 8 ops\<close>
    unfolding ops_def [symmetric] by blast
  with eq acc rej pth rest show ?thesis
    unfolding Let_def self_def [symmetric] w_def [symmetric] ops_def [symmetric]
    by simp
qed

subsection \<open>The rendered documents\<close>

text \<open>
  Claim C6. For every server name and every registry entry, the document of the server
  has the keys \<^verbatim>\<open>name\<close>, \<^verbatim>\<open>version\<close>, \<^verbatim>\<open>capabilities\<close>, \<^verbatim>\<open>endpoints\<close>,
  \<^verbatim>\<open>authentication\<close>, \<^verbatim>\<open>mcp_protocol\<close>, \<^verbatim>\<open>tools\<close>, \<^verbatim>\<open>resources\<close> and \<^verbatim>\<open>prompts\<close>,
  in this order; \<^verbatim>\<open>tools\<close>, \<^verbatim>\<open>resources\<close> and \<^verbatim>\<open>prompts\<close> are arrays, and the empty
  array (rendered as \<^verbatim>\<open>[]\<close>) when the lookup table has no entry for the server.
\<close>

theorem server_config_document_schema:
  \<open>keys (server_config_document server_name server_config)
     = [''name'', ''version'', ''capabilities'', ''endpoints'', ''authentication'',
        ''mcp_protocol'', ''tools'', ''resources'', ''prompts'']
   \<and> field ''tools'' (server_config_document server_name server_config)
       = Some (JArr (get_server_tools server_name))
   \<and> field ''resources'' (server_config_document server_name server_config)
       = Some (JArr (get_server_resources server_name))
   \<and> field ''prompts'' (server_config_document server_name server_config)
       = Some (JArr (get_server_prompts server_name))
   \<and> (map_of tools_map server_name = None \<longrightarrow>
        field ''tools'' (server_config_document server_name server_config) = Some (JArr []))
   \<and> (map_of resources_map server_name = None \<longrightarrow>
        field ''resources'' (server_config_document server_name server_config) = Some (JArr []))
   \<and> (map_of prompts_map server_name = None \<longrightarrow>
        field ''prompts'' (server_config_document server_name server_config) = Some (JArr []))
   \<and> iterencode (Some 2) 1 (JArr []) = ''[]''\<close>
  by (simp add: server_config_document_def get_server_tools_def get_server_resources_def
      get_server_prompts_def)

theorem server_config_document_schema_witness:
  \<open>map_of tools_map ''apple_notes'' = None
   \<and> map_of resources_map ''apple_notes'' = None
   \<and> map_of prompts_map ''apple_notes'' = None
   \<and> field ''tools'' (server_config_document ''apple_notes'' plain_entry) = Some (JArr [])
   \<and> field ''resources'' (server_config_document ''apple_notes'' plain_entry) = Some (JArr [])
   \<and> field ''prompts'' (server_config_document ''apple_notes'' plain_entry) = Some (JArr [])
   \<and> field ''capabilities'' (server_config_document ''apple_notes'' plain_entry) = Some (JArr [])\<close>
  using server_config_document_schema [of \<open>''apple_notes''\<close> plain_entry] unlisted_server
  by (simp add: server_config_document_def plain_entry_def)

text \<open>
  Claim C7. In the manifest, \<^verbatim>\<open>connections\<close> and \<^verbatim>\<open>patterns\<close> hold one document for
  each connection and each pattern of the model, in the order of the model's lists (and
  different entities give different documents); \<^verbatim>\<open>total_connections\<close> and
  \<^verbatim>\<open>total_patterns\<close> are the lengths of these two arrays, and \<^verbatim>\<open>servers\<close> is the list
  of the registered ids.
\<close>

theorem manifest_document_counts:
  \<open>field ''connections'' (manifest_document now self)
     = Some (JArr (map connection_document (mcp_connections self)))
   \<and> field ''patterns'' (manifest_document now self)
     = Some (JArr (map pattern_document (mcp_patterns self)))
   \<and> inj connection_document \<and> inj pattern_document
   \<and> (case field ''mcp_ecosystem'' (manifest_document now self) of
        None \<Rightarrow> False
      | Some eco \<Rightarrow>
          field ''total_connections'' eco
            = Some (JInt (int (length (map connection_document (mcp_connections self)))))
          \<and> field ''total_patterns'' eco
            = Some (JInt (int (length (map pattern_document (mcp_patterns self)))))
          \<and> field ''servers'' eco = Some (JArr (map JStr (server_ids self))))\<close>
  using inj_connection_document inj_pattern_document
  by (simp add: manifest_document_def server_ids_def comp_def)

theorem manifest_document_counts_witness:
  \<open>let self = create_mcp_patterns (create_mcp_connections (init default_base_path));
       doc = manifest_document ''2025-01-01T00:00:00'' self
   in (case field ''mcp_ecosystem'' doc of
         None \<Rightarrow> False
       | Some eco \<Rightarrow>
           field ''total_connections'' eco = Some (JInt 5)
           \<and> field ''total_patterns'' eco = Some (JInt 4)
           \<and> field ''servers'' eco
               = Some (JArr [JStr ''activepieces'', JStr ''claude_flow'', JStr ''iza_os_core'',
                    JStr ''github_integration'']))
      \<and> (case field ''connections'' doc of Some (JArr cs) \<Rightarrow> length cs = 5 | _ \<Rightarrow> False)
      \<and> (case field ''patterns'' doc of Some (JArr ps) \<Rightarrow> length ps = 4 | _ \<Rightarrow> False)\<close>
proof -
  define self where \<open>self = create_mcp_patterns (create_mcp_connections (init default_base_path))\<close>
  have n: \<open>length (mcp_connections self) = 5\<close> \<open>length (mcp_patterns self) = 4\<close>
    by (simp_all add: self_def create_mcp_connections_def create_mcp_patterns_def)
  have ids: \<open>server_ids self
      = [''activepieces'', ''claude_flow'', ''iza_os_core'', ''github_integration'']\<close>
    by (simp add: self_def init_server_ids)
  from manifest_document_counts [of \<open>''2025-01-01T00:00:00''\<close> self] n ids
  show ?thesis
    unfolding Let_def self_def [symmetric]
    by (simp split: option.splits)
qed

subsection \<open>The route rules\<close>

text \<open>
  Claim C8 as stated fails. The server \<^verbatim>\<open>iza_os_core\<close> is registered, and neither
  descriptor has a rule for the prefix \<^verbatim>\<open>/api/iza_os_core/\<close>: the rules are written for
  \<^verbatim>\<open>/api/iza-os/\<close>.
\<close>

theorem route_rule_counterexample:
  \<open>registered (init default_base_path) ''iza_os_core''
   \<and> declared_endpoints (init default_base_path) ''iza_os_core''
       = [''/api/v1/config'', ''/api/v1/registry'', ''/api/v1/status'']
   \<and> vercel_route_for ''iza_os_core'' = ''/api/iza_os_core/(.*)''
   \<and> vercel_route_for ''iza_os_core'' \<notin> fst ` set (route_rules vercel_config)
   \<and> netlify_redirect_for ''iza_os_core'' \<notin> fst ` set (redirect_rules netlify_config)\<close>
  by (simp add: registered_def init_server_ids init_declared_endpoints vercel_rules netlify_rules
      vercel_route_for_def netlify_redirect_for_def)

text \<open>
  Claim C8, amended. Each descriptor holds the same four route rules, for the prefixes
  \<^verbatim>\<open>/api/iza-os/\<close>, \<^verbatim>\<open>/api/activepieces/\<close>, \<^verbatim>\<open>/api/claude-flow/\<close> and \<^verbatim>\<open>/api/github/\<close>,
  each mapped to a fixed path. The rules do not depend on the registry: the two
  generators make the same call whatever servers are registered, so another server
  yields no other rule. Among the registered ids only \<^verbatim>\<open>activepieces\<close> has a rule with
  the prefix \<^verbatim>\<open>/api/<id>/\<close>.
\<close>

theorem route_rules_fixed:
  \<open>route_rules vercel_config =
     [(''/api/iza-os/(.*)'', ''/iza-os-integrated/00-meta/api/$1''),
      (''/api/activepieces/(.*)'',
       ''/worldwidebro-repositories/activepieces/packages/server/api/$1''),
      (''/api/claude-flow/(.*)'', ''/iza-os-integrated/30-models/claude-flow/api/$1''),
      (''/api/github/(.*)'', ''/worldwidebro-integration/api/$1'')]
   \<and> redirect_rules netlify_config =
     [(''"/api/iza-os/*"'', ''"/iza-os-integrated/00-meta/api/:splat"''),
      (''"/api/activepieces/*"'',
       ''"/worldwidebro-repositories/activepieces/packages/server/api/:splat"''),
      (''"/api/claude-flow/*"'', ''"/iza-os-integrated/30-models/claude-flow/api/:splat"''),
      (''"/api/github/*"'', ''"/worldwidebro-integration/api/:splat"'')]
   \<and> create_vercel_config (self\<lparr>mcp_servers := servers\<rparr>) = create_vercel_config self
   \<and> create_netlify_config (self\<lparr>mcp_servers := servers\<rparr>) = create_netlify_config self
   \<and> (registered (init bp) sid \<longrightarrow>
        (vercel_route_for sid \<in> fst ` set (route_rules vercel_config)
           \<longleftrightarrow> sid = ''activepieces'')
        \<and> (netlify_redirect_for sid \<in> fst ` set (redirect_rules netlify_config)
           \<longleftrightarrow> sid = ''activepieces''))\<close>
proof -
  have ids: \<open>(vercel_route_for sid \<in> fst ` set (route_rules vercel_config)
           \<longleftrightarrow> sid = ''activepieces'')
        \<and> (netlify_redirect_for sid \<in> fst ` set (redirect_rules netlify_config)
           \<longleftrightarrow> sid = ''activepieces'')\<close>
    if \<open>registered (init bp) sid\<close>
  proof -
    from that consider \<open>sid = ''activepieces''\<close> | \<open>sid = ''claude_flow''\<close>
      | \<open>sid = ''iza_os_core''\<close> | \<open>sid = ''github_integration''\<close>
      by (auto simp: registered_def init_server_ids)
    then show ?thesis
      by cases
        (simp_all add: vercel_rules netlify_rules vercel_route_for_def netlify_redirect_for_def)
  qed
  have indep: \<open>create_vercel_config (self\<lparr>mcp_servers := servers\<rparr>) = create_vercel_config self\<close>
    \<open>create_netlify_config (self\<lparr>mcp_servers := servers\<rparr>) = create_netlify_config self\<close>
    by (simp_all add: create_vercel_config_def create_netlify_config_def)
  from ids indep vercel_rules netlify_rules show ?thesis
    by simp
qed

theorem route_rules_fixed_witness:
  \<open>registered (init default_base_path) ''activepieces''
   \<and> vercel_route_for ''activepieces'' \<in> fst ` set (route_rules vercel_config)
   \<and> netlify_redirect_for ''activepieces'' \<in> fst ` set (redirect_rules netlify_config)
   \<and> registered (init default_base_path) ''claude_flow''
   \<and> vercel_route_for ''claude_flow'' \<notin> fst ` set (route_rules vercel_config)
   \<and> netlify_redirect_for ''claude_flow'' \<notin> fst ` set (redirect_rules netlify_config)\<close>
proof -
  have r: \<open>registered (init default_base_path) ''activepieces''\<close>
    \<open>registered (init default_base_path) ''claude_flow''\<close>
    by (simp_all add: registered_def init_server_ids)
  note rule = route_rules_fixed [where self = \<open>init default_base_path\<close> and servers = \<open>[]\<close>
      and bp = default_base_path, THEN conjunct2, THEN conjunct2, THEN conjunct2,
      THEN conjunct2, THEN mp]
  from rule [OF r(1)]
  have a: \<open>vercel_route_for ''activepieces'' \<in> fst ` set (route_rules vercel_config)\<close>
    \<open>netlify_redirect_for ''activepieces'' \<in> fst ` set (redirect_rules netlify_config)\<close>
    by blast+
  from rule [OF r(2)]
  have c: \<open>vercel_route_for ''claude_flow'' \<notin> fst ` set (route_rules vercel_config)\<close>
    \<open>netlify_redirect_for ''claude_flow'' \<notin> fst ` set (redirect_rules netlify_config)\<close>
    by simp_all
  from r a c show ?thesis by blast
qed


end
